theory Spec2Isabelle
  imports Main "HOL-Library.Word"
begin

section \<open>Python values, errors, text and bytes\<close>

text \<open>
  Exceptions of the Python source are values of \<open>error\<close>; an operation that may raise
  returns \<open>error + 'a\<close> with \<open>Inl\<close> for the raised exception.
\<close>

datatype error =
    UnicodeDecodeError
  | UnicodeEncodeError
  | KeyError
  | ValueError
  | MissingArgumentError
  | ConnectionError
  | OtherError

text \<open>
  A Python \<open>bytes\<close> object is a list of 8-bit words. A Python \<open>str\<close> handled by the
  framing code is a list of Unicode code points (natural numbers): the codecs below
  depend on the numeric value of each code point.
\<close>

type_synonym byte = "8 word"
type_synonym bytes = "byte list"
type_synonym str = "nat list"

definition then_do :: "error + 'a \<Rightarrow> ('a \<Rightarrow> error + 'b) \<Rightarrow> error + 'b" where
  "then_do r f = (case r of Inl e \<Rightarrow> Inl e | Inr x \<Rightarrow> f x)"

subsection \<open>The built-in codecs used by \<open>connection.py\<close>\<close>

text \<open>
  \<open>bytes.decode()\<close> without arguments is the strict UTF-8 decoder of the Python
  runtime: it raises \<open>UnicodeDecodeError\<close> on a stray continuation byte, a truncated
  sequence, an overlong form, an encoded surrogate and a value above U+10FFFF.
\<close>

definition cont :: "byte \<Rightarrow> bool" where
  "cont b = (0x80 \<le> b \<and> b \<le> 0xBF)"

definition low6 :: "byte \<Rightarrow> nat" where
  "low6 b = unat b mod 64"

definition prepend :: "nat \<Rightarrow> error + str \<Rightarrow> error + str" where
  "prepend c r = (case r of Inl e \<Rightarrow> Inl e | Inr t \<Rightarrow> Inr (c # t))"

text \<open>Bounds of the second byte of a three-byte and of a four-byte sequence.\<close>

definition second3 :: "byte \<Rightarrow> byte \<Rightarrow> bool" where
  "second3 b0 b1 =
     (if b0 = 0xE0 then 0xA0 \<le> b1 \<and> b1 \<le> 0xBF
      else if b0 = 0xED then 0x80 \<le> b1 \<and> b1 \<le> 0x9F
      else cont b1)"

definition second4 :: "byte \<Rightarrow> byte \<Rightarrow> bool" where
  "second4 b0 b1 =
     (if b0 = 0xF0 then 0x90 \<le> b1 \<and> b1 \<le> 0xBF
      else if b0 = 0xF4 then 0x80 \<le> b1 \<and> b1 \<le> 0x8F
      else cont b1)"

fun decode_utf8 :: "bytes \<Rightarrow> error + str" where
  "decode_utf8 [] = Inr []"
| "decode_utf8 (b0 # bs) =
     (if b0 < 0x80 then prepend (unat b0) (decode_utf8 bs)
      else if 0xC2 \<le> b0 \<and> b0 \<le> 0xDF then
        (case bs of
           b1 # r \<Rightarrow>
             if cont b1
             then prepend ((unat b0 mod 32) * 64 + low6 b1) (decode_utf8 r)
             else Inl UnicodeDecodeError
         | _ \<Rightarrow> Inl UnicodeDecodeError)
      else if 0xE0 \<le> b0 \<and> b0 \<le> 0xEF then
        (case bs of
           b1 # b2 # r \<Rightarrow>
             if second3 b0 b1 \<and> cont b2
             then prepend ((unat b0 mod 16) * 4096 + low6 b1 * 64 + low6 b2) (decode_utf8 r)
             else Inl UnicodeDecodeError
         | _ \<Rightarrow> Inl UnicodeDecodeError)
      else if 0xF0 \<le> b0 \<and> b0 \<le> 0xF4 then
        (case bs of
           b1 # b2 # b3 # r \<Rightarrow>
             if second4 b0 b1 \<and> cont b2 \<and> cont b3
             then prepend ((unat b0 mod 8) * 262144 + low6 b1 * 4096 + low6 b2 * 64 + low6 b3)
                    (decode_utf8 r)
             else Inl UnicodeDecodeError
         | _ \<Rightarrow> Inl UnicodeDecodeError)
      else Inl UnicodeDecodeError)"

text \<open>
  \<open>bytes.decode("latin1")\<close>: every byte is the code point of the same value; no byte
  sequence is rejected.
\<close>

definition decode_latin1 :: "bytes \<Rightarrow> error + str" where
  "decode_latin1 line = Inr (map unat line)"

text \<open>
  \<open>str.encode()\<close> without arguments is the strict UTF-8 encoder: it raises
  \<open>UnicodeEncodeError\<close> on a surrogate code point (U+D800 to U+DFFF). A Python
  \<open>str\<close> holds no code point above U+10FFFF; the model rejects such a number.
\<close>

definition encode_codepoint :: "nat \<Rightarrow> error + bytes" where
  "encode_codepoint c =
     (if c < 0x80 then Inr [of_nat c]
      else if c < 0x800 then Inr [of_nat (0xC0 + c div 64), of_nat (0x80 + c mod 64)]
      else if 0xD800 \<le> c \<and> c \<le> 0xDFFF then Inl UnicodeEncodeError
      else if c < 0x10000 then
        Inr [of_nat (0xE0 + c div 4096), of_nat (0x80 + c div 64 mod 64),
             of_nat (0x80 + c mod 64)]
      else if c < 0x110000 then
        Inr [of_nat (0xF0 + c div 262144), of_nat (0x80 + c div 4096 mod 64),
             of_nat (0x80 + c div 64 mod 64), of_nat (0x80 + c mod 64)]
      else Inl UnicodeEncodeError)"

fun encode_utf8 :: "str \<Rightarrow> error + bytes" where
  "encode_utf8 [] = Inr []"
| "encode_utf8 (c # cs) =
     then_do (encode_codepoint c) (\<lambda>b. then_do (encode_utf8 cs) (\<lambda>bs. Inr (b @ bs)))"

section \<open>\<open>connection.py\<close>: the framing helpers of a Connection\<close>

text \<open>
  Modelled from the spec: \<open>network.py\<close> and \<open>client.py\<close>, which give a session its
  attributes, are not among the sources. By the session contract a session exposes a
  boolean \<open>connected\<close> flag and a \<open>transport\<close> handle offering \<open>close()\<close>. The
  transport is an asyncio transport; the model records the calls made on it: the payloads
  passed to \<open>write\<close>, in order, and whether \<open>close\<close> was called.
\<close>

record transport =
  written :: "bytes list"
  closed :: bool

record connection =
  connected :: bool
  transport :: transport

definition transport_write :: "transport \<Rightarrow> bytes \<Rightarrow> transport" where
  "transport_write t payload = t\<lparr>written := written t @ [payload]\<rparr>"

definition transport_close :: "transport \<Rightarrow> transport" where
  "transport_close t = t\<lparr>closed := True\<rparr>"

text \<open>\<open>Connection.decode\<close>: try UTF-8, and on \<open>UnicodeDecodeError\<close> only, Latin-1.\<close>

definition decode :: "bytes \<Rightarrow> error + str" where
  "decode line =
     (case decode_utf8 line of
        Inr t \<Rightarrow> Inr t
      | Inl e \<Rightarrow> if e = UnicodeDecodeError then decode_latin1 line else Inl e)"

text \<open>\<open>str.endswith\<close> with one suffix argument.\<close>

definition endswith :: "'a list \<Rightarrow> 'a list \<Rightarrow> bool" where
  "endswith line ending =
     (length ending \<le> length line \<and> drop (length line - length ending) line = ending)"

text \<open>\<open>Connection.normalize\<close>; the default ending is CR LF.\<close>

definition normalize_line :: "str \<Rightarrow> str \<Rightarrow> str" where
  "normalize_line line ending = (if \<not> endswith line ending then line @ ending else line)"

definition crlf :: str where
  "crlf = [13, 10]"

text \<open>\<open>" ".join(args)\<close>.\<close>

fun join :: "str \<Rightarrow> str list \<Rightarrow> str" where
  "join sep [] = []"
| "join sep [x] = x"
| "join sep (x # y # ys) = x @ sep @ join sep (y # ys)"

text \<open>
  \<open>Connection.send\<close>: the message is joined and normalized, then encoded; the encoder
  may raise, and only afterwards is the transport written to.
\<close>

definition send :: "connection \<Rightarrow> str list \<Rightarrow> error + connection" where
  "send self args =
     (let message = normalize_line (join [32] args) crlf in
      then_do (encode_utf8 message)
        (\<lambda>payload. Inr (self\<lparr>transport := transport_write (transport self) payload\<rparr>)))"

section \<open>\<open>bouncer.py\<close>: the Bouncer\<close>

text \<open>
  Values held in the credentials dictionary: \<open>None\<close>, a string or an integer (the port
  is an \<open>int\<close> in the docstring and a \<open>str\<close> when it comes from a web form). A dict
  literal, and the keyword arguments it is unpacked into, is an association list in the
  order the source writes it.
\<close>

datatype pyval = PyNone | PyStr string | PyInt int

type_synonym kwargs = "(string \<times> pyval) list"

type_synonym ref = nat

text \<open>
  The calls the Bouncer and the request handlers make on their collaborators, in the
  order they are made: the Datastore (\<open>set_password\<close>, \<open>add_network\<close>,
  \<open>remove_network\<close>), the event loop (\<open>create_connection\<close> with the factory
  \<open>Network(self, **credentials)\<close>, the hostname and the port, scheduled by
  \<open>asyncio.async\<close>), standard output and the HTTP response.
\<close>

datatype event =
    DsSetPassword
  | DsAddNetwork kwargs
  | DsRemoveNetwork string
  | CreateConnection kwargs string pyval
  | PrintWarning
  | Redirect string

text \<open>
  The attributes of a Bouncer. \<open>datastore\<close> is \<open>True\<close> when \<open>self.datastore\<close> is a
  Datastore and \<open>False\<close> when it is \<open>None\<close>. Clients and networks are references to
  session objects; the objects themselves live in \<open>objects\<close>, since
  \<open>remove_network\<close> mutates a session through the reference the registry holds.
\<close>

record bouncer =
  clients :: "ref set"
  networks :: "string \<rightharpoonup> ref"
  datastore :: bool

record world =
  bouncer :: bouncer
  objects :: "ref \<Rightarrow> connection"
  effects :: "event list"

definition emit :: "world \<Rightarrow> event \<Rightarrow> world" where
  "emit w ev = w\<lparr>effects := effects w @ [ev]\<rparr>"

text \<open>Subscription \<open>d[k]\<close> of a dict raises \<open>KeyError\<close> on a missing key.\<close>

definition getitem :: "('k \<rightharpoonup> 'v) \<Rightarrow> 'k \<Rightarrow> error + 'v" where
  "getitem d k = (case d k of None \<Rightarrow> Inl KeyError | Some v \<Rightarrow> Inr v)"

text \<open>The dict literal \<open>credentials\<close> of \<open>Bouncer.add_network\<close>.\<close>

definition credentials ::
  "string \<Rightarrow> string \<Rightarrow> pyval \<Rightarrow> string \<Rightarrow> string \<Rightarrow> string \<Rightarrow> pyval \<Rightarrow> kwargs" where
  "credentials network hostname port nickname username realname password =
     [(''network'', PyStr network),
      (''nickname'', PyStr nickname),
      (''username'', PyStr username),
      (''realname'', PyStr realname),
      (''hostname'', PyStr hostname),
      (''port'', port),
      (''password'', password)]"

text \<open>
  \<open>Bouncer.add_network\<close>. The parameter \<open>usermode\<close> is accepted and not used by the
  body. No statement of the body raises: the connection is only scheduled.
\<close>

definition add_network ::
  "world \<Rightarrow> string \<Rightarrow> string \<Rightarrow> pyval \<Rightarrow> string \<Rightarrow> string \<Rightarrow> string \<Rightarrow> pyval \<Rightarrow> int
     \<Rightarrow> error + world" where
  "add_network w network hostname port nickname username realname password usermode =
     (let creds = credentials network hostname port nickname username realname password;
          w1 = (if datastore (bouncer w) then emit w (DsAddNetwork creds) else w)
      in Inr (emit w1 (CreateConnection creds hostname port)))"

text \<open>
  \<open>Bouncer.remove_network\<close>. \<open>disconnect\<close> is the block under
  \<open>if network in self.networks\<close>: each of its two statements looks the session up in
  the registry again, then sets its \<open>connected\<close> attribute, respectively closes its
  transport.
\<close>

definition disconnect :: "world \<Rightarrow> string \<Rightarrow> error + world" where
  "disconnect w network =
     then_do (getitem (networks (bouncer w)) network) (\<lambda>r1.
       let w1 = w\<lparr>objects := (objects w)(r1 := (objects w r1)\<lparr>connected := False\<rparr>)\<rparr> in
       then_do (getitem (networks (bouncer w1)) network) (\<lambda>r2.
         Inr (w1\<lparr>objects := (objects w1)
                 (r2 := (objects w1 r2)\<lparr>transport := transport_close (transport (objects w1 r2))\<rparr>)\<rparr>)))"

definition remove_network :: "world \<Rightarrow> string \<Rightarrow> error + world" where
  "remove_network w network =
     then_do (if network \<in> dom (networks (bouncer w)) then disconnect w network else Inr w)
       (\<lambda>w1. Inr (if datastore (bouncer w1) then emit w1 (DsRemoveNetwork network) else w1))"

text \<open>
  Modelled from the spec: \<open>datastore.py\<close> is not among the sources. \<open>getNetworks()\<close>
  returns a map from network name to Credentials, and \<open>__init__\<close> unpacks each stored
  Credentials value into the keyword arguments of \<open>add_network\<close>: the six required
  parameters, and \<open>password\<close> and \<open>usermode\<close>, which take their defaults \<open>None\<close> and
  \<open>0\<close> when the dictionary does not supply them.
\<close>

record network_kwargs =
  kw_network :: string
  kw_hostname :: string
  kw_port :: pyval
  kw_nickname :: string
  kw_username :: string
  kw_realname :: string
  kw_password :: "pyval option"
  kw_usermode :: "int option"

definition call_add_network :: "world \<Rightarrow> network_kwargs \<Rightarrow> error + world" where
  "call_add_network w kw =
     add_network w (kw_network kw) (kw_hostname kw) (kw_port kw)
       (kw_nickname kw) (kw_username kw) (kw_realname kw)
       (case kw_password kw of None \<Rightarrow> PyNone | Some p \<Rightarrow> p)
       (case kw_usermode kw of None \<Rightarrow> 0 | Some u \<Rightarrow> u)"

text \<open>The loop \<open>for credentials in history.values(): self.add_network(**credentials)\<close>.\<close>

fun add_networks :: "world \<Rightarrow> network_kwargs list \<Rightarrow> error + world" where
  "add_networks w [] = Inr w"
| "add_networks w (kw # rest) = then_do (call_add_network w kw) (\<lambda>w1. add_networks w1 rest)"

definition no_connection :: connection where
  "no_connection = \<lparr>connected = False, transport = \<lparr>written = [], closed = False\<rparr>\<rparr>"

text \<open>
  \<open>Bouncer.__init__\<close>. What the Datastore answers is an input of the model:

  \<^item> \<open>ping\<close>: the exception raised by constructing the Datastore and pinging it, if any;
  \<^item> \<open>stored_password\<close>: the result of \<open>get_password()\<close>, tested for truth;
  \<^item> \<open>history\<close>: the dict returned by \<open>get_networks()\<close>, network name to the stored
    credentials, in the order \<open>values()\<close> yields them.

  An exception other than \<open>redis.ConnectionError\<close> is not caught and leaves \<open>__init__\<close>.
\<close>

definition Bouncer_init ::
  "error option \<Rightarrow> string option \<Rightarrow> (string \<times> network_kwargs) list \<Rightarrow> error + world" where
  "Bouncer_init ping stored_password history =
     (let w0 = \<lparr>bouncer = \<lparr>clients = {}, networks = Map.empty, datastore = False\<rparr>,
                objects = (\<lambda>r. no_connection), effects = []\<rparr>
      in case ping of
           Some e \<Rightarrow> if e = ConnectionError then Inr (emit w0 PrintWarning) else Inl e
         | None \<Rightarrow>
             (let w1 = w0\<lparr>bouncer := (bouncer w0)\<lparr>datastore := True\<rparr>\<rparr>;
                  w2 = (if stored_password = None \<or> stored_password = Some []
                        then emit w1 DsSetPassword else w1)
              in add_networks w2 (map snd history)))"

section \<open>\<open>handlers.py\<close>: the pages that add, edit and delete a network\<close>

text \<open>
  The arguments of a request: \<open>get_argument(name)\<close> returns the value submitted under
  \<open>name\<close> and raises \<open>MissingArgumentError\<close> when there is none.
\<close>

type_synonym request = "string \<rightharpoonup> string"

definition get_argument :: "request \<Rightarrow> string \<Rightarrow> error + string" where
  "get_argument req name = (case req name of None \<Rightarrow> Inl MissingArgumentError | Some v \<Rightarrow> Inr v)"

text \<open>\<open>str.split(sep)\<close> with a separator of one character.\<close>

fun str_split :: "char \<Rightarrow> string \<Rightarrow> string list" where
  "str_split sep [] = [[]]"
| "str_split sep (c # cs) =
     (if c = sep then [] # str_split sep cs
      else (case str_split sep cs of p # ps \<Rightarrow> (c # p) # ps | [] \<Rightarrow> [[c]]))"

text \<open>The assignment \<open>hostname, port = parts\<close> raises \<open>ValueError\<close> unless there are two parts.\<close>

definition unpack2 :: "string list \<Rightarrow> error + string \<times> string" where
  "unpack2 parts = (case parts of [a, b] \<Rightarrow> Inr (a, b) | _ \<Rightarrow> Inl ValueError)"

text \<open>
  The six lines both \<open>post\<close> methods share: read \<open>networkname\<close>, \<open>networkaddress\<close>,
  \<open>nickname\<close>, \<open>ident\<close> and \<open>password\<close> in this order, then split the address.
\<close>

record network_form =
  form_name :: string
  form_hostname :: string
  form_port :: string
  form_nickname :: string
  form_ident :: string
  form_password :: string

definition read_form :: "request \<Rightarrow> error + network_form" where
  "read_form req =
     then_do (get_argument req ''networkname'') (\<lambda>name.
     then_do (get_argument req ''networkaddress'') (\<lambda>address.
     then_do (get_argument req ''nickname'') (\<lambda>nick.
     then_do (get_argument req ''ident'') (\<lambda>idt.
     then_do (get_argument req ''password'') (\<lambda>pw.
     then_do (unpack2 (str_split CHR '':'' address)) (\<lambda>(h, p).
       Inr \<lparr>form_name = name, form_hostname = h, form_port = p, form_nickname = nick,
            form_ident = idt, form_password = pw\<rparr>))))))"

text \<open>
  The call \<open>self.bouncer.add_network(network=..., ..., password=password)\<close> of both
  handlers: \<open>username\<close> and \<open>realname\<close> are both the ident, the port is the string after
  the colon, and \<open>usermode\<close> is not passed and takes its default.
\<close>

definition add_from_form :: "world \<Rightarrow> network_form \<Rightarrow> error + world" where
  "add_from_form w f =
     add_network w (form_name f) (form_hostname f) (PyStr (form_port f)) (form_nickname f)
       (form_ident f) (form_ident f) (PyStr (form_password f)) 0"

text \<open>
  A handler returns the exception it raised, if any, and the world as it left it: an
  exception does not undo the calls made before it.
\<close>

definition finish :: "error + world \<Rightarrow> world \<Rightarrow> error option \<times> world" where
  "finish r w = (case r of Inl e \<Rightarrow> (Some e, w) | Inr w1 \<Rightarrow> (None, emit w1 (Redirect ''/'')))"

text \<open>\<open>AddHandler.post\<close>.\<close>

definition AddHandler_post :: "world \<Rightarrow> request \<Rightarrow> error option \<times> world" where
  "AddHandler_post w req =
     (case read_form req of
        Inl e \<Rightarrow> (Some e, w)
      | Inr f \<Rightarrow>
          finish (if form_name f \<notin> dom (networks (bouncer w)) then add_from_form w f else Inr w) w)"

text \<open>\<open>EditHandler.post\<close>: the network is removed before the form is read.\<close>

definition EditHandler_post :: "world \<Rightarrow> string \<Rightarrow> request \<Rightarrow> error option \<times> world" where
  "EditHandler_post w name req =
     (case remove_network w name of
        Inl e \<Rightarrow> (Some e, w)
      | Inr w1 \<Rightarrow>
          (case read_form req of
             Inl e \<Rightarrow> (Some e, w1)
           | Inr f \<Rightarrow> finish (add_from_form w1 f) w1))"

text \<open>\<open>DeleteHandler.get\<close>.\<close>

definition DeleteHandler_get :: "world \<Rightarrow> string \<Rightarrow> error option \<times> world" where
  "DeleteHandler_get w name = finish (remove_network w name) w"

section \<open>Notions used to state the properties\<close>

text \<open>A Unicode scalar value: a code point up to U+10FFFF that is not a surrogate.\<close>

definition scalar :: "nat \<Rightarrow> bool" where
  "scalar c = (c < 0xD800 \<or> (0xDFFF < c \<and> c < 0x110000))"

definition only_decode_error :: "error + str \<Rightarrow> bool" where
  "only_decode_error r = (case r of Inl e \<Rightarrow> e = UnicodeDecodeError | Inr t \<Rightarrow> True)"

text \<open>
  The credentials dictionary \<open>add_network\<close> builds from the keyword arguments of a
  stored record, and the two calls the reload of that record makes when the Datastore is
  available.
\<close>

definition kwargs_credentials :: "network_kwargs \<Rightarrow> kwargs" where
  "kwargs_credentials kw =
     credentials (kw_network kw) (kw_hostname kw) (kw_port kw) (kw_nickname kw)
       (kw_username kw) (kw_realname kw)
       (case kw_password kw of None \<Rightarrow> PyNone | Some p \<Rightarrow> p)"

definition reload_events :: "network_kwargs \<Rightarrow> event list" where
  "reload_events kw =
     [DsAddNetwork (kwargs_credentials kw),
      CreateConnection (kwargs_credentials kw) (kw_hostname kw) (kw_port kw)]"

fun is_network_write :: "event \<Rightarrow> bool" where
  "is_network_write (DsAddNetwork c) = True"
| "is_network_write ev = False"

fun is_dial :: "event \<Rightarrow> bool" where
  "is_dial (CreateConnection c h p) = True"
| "is_dial ev = False"

subsection \<open>Concrete inputs\<close>

definition live :: connection where
  "live = \<lparr>connected = True, transport = \<lparr>written = [], closed = False\<rparr>\<rparr>"

text \<open>A Bouncer with a Datastore and two registered networks, \<open>freenode\<close> and \<open>oftc\<close>.\<close>

definition demo :: world where
  "demo = \<lparr>bouncer = \<lparr>clients = {}, networks = [''freenode'' \<mapsto> 0, ''oftc'' \<mapsto> 1],
                       datastore = True\<rparr>,
            objects = (\<lambda>r. live), effects = []\<rparr>"

text \<open>A submitted form whose network name is \<open>oftc\<close>.\<close>

definition demo_request :: request where
  "demo_request =
     [''networkname'' \<mapsto> ''oftc'', ''networkaddress'' \<mapsto> ''irc.example.org:6667'',
      ''nickname'' \<mapsto> ''alice'', ''ident'' \<mapsto> ''alice'', ''password'' \<mapsto> ''secret'']"

definition demo_credentials :: kwargs where
  "demo_credentials =
     [(''network'', PyStr ''oftc''), (''nickname'', PyStr ''alice''),
      (''username'', PyStr ''alice''), (''realname'', PyStr ''alice''),
      (''hostname'', PyStr ''irc.example.org''), (''port'', PyStr ''6667''),
      (''password'', PyStr ''secret'')]"

definition freenode_kwargs :: network_kwargs where
  "freenode_kwargs =
     \<lparr>kw_network = ''freenode'', kw_hostname = ''irc.example.org'', kw_port = PyInt 6667,
      kw_nickname = ''alice'', kw_username = ''alice'', kw_realname = ''Alice'',
      kw_password = Some PyNone, kw_usermode = None\<rparr>"

definition oftc_kwargs :: network_kwargs where
  "oftc_kwargs =
     \<lparr>kw_network = ''oftc'', kw_hostname = ''irc.oftc.net'', kw_port = PyInt 6697,
      kw_nickname = ''bob'', kw_username = ''bob'', kw_realname = ''Bob'',
      kw_password = None, kw_usermode = Some 8\<rparr>"

section \<open>Framing: \<open>decode\<close>, \<open>normalize\<close> and \<open>send\<close>\<close>

subsection \<open>The codecs\<close>

lemma only_decode_error_simps [simp]:
  "only_decode_error (Inl UnicodeDecodeError)"
  "only_decode_error (Inr t)"
  "only_decode_error r \<Longrightarrow> only_decode_error (prepend c r)"
  by (auto simp: only_decode_error_def prepend_def split: sum.splits)

lemma decode_utf8_raises: "only_decode_error (decode_utf8 b)"
  by (induction b rule: decode_utf8.induct) (simp_all split: list.split)

lemma decode_utf8_error: "decode_utf8 b = Inl e \<Longrightarrow> e = UnicodeDecodeError"
  using decode_utf8_raises [of b] by (simp add: only_decode_error_def)

lemma decode_utf8_examples:
  "decode_utf8 [0xC3, 0xA9] = Inr [233]"
  "decode_utf8 [0xE9] = Inl UnicodeDecodeError"
  "decode_utf8 [0x50, 0xC3] = Inl UnicodeDecodeError"
  by (simp_all add: cont_def low6_def prepend_def)

lemma decode_utf8_rejects:
  "decode_utf8 [0xC0, 0x80] = Inl UnicodeDecodeError"
  "decode_utf8 [0xED, 0xA0, 0x80] = Inl UnicodeDecodeError"
  "decode_utf8 [0xF4, 0x90, 0x80, 0x80] = Inl UnicodeDecodeError"
  "decode_utf8 [0xE2, 0x82] = Inl UnicodeDecodeError"
  "decode_utf8 [0x80] = Inl UnicodeDecodeError"
  by (simp_all add: cont_def second3_def second4_def)

lemma codecs_agree:
  "encode_utf8 [80, 233, 0x20AC, 0x1F600] =
     Inr [0x50, 0xC3, 0xA9, 0xE2, 0x82, 0xAC, 0xF0, 0x9F, 0x98, 0x80]"
  "decode_utf8 [0x50, 0xC3, 0xA9, 0xE2, 0x82, 0xAC, 0xF0, 0x9F, 0x98, 0x80] =
     Inr [80, 233, 0x20AC, 0x1F600]"
  by (simp_all add: encode_codepoint_def then_do_def cont_def second3_def second4_def
      low6_def prepend_def)

lemma encode_codepoint_scalar: "scalar c \<Longrightarrow> \<exists>b. encode_codepoint c = Inr b"
  by (auto simp: scalar_def encode_codepoint_def)

lemma encode_utf8_scalar: "list_all scalar t \<Longrightarrow> \<exists>bs. encode_utf8 t = Inr bs"
proof (induction t)
  case Nil
  then show ?case by simp
next
  case (Cons c cs)
  from Cons.prems have "scalar c" by simp
  then obtain b where b: "encode_codepoint c = Inr b"
    using encode_codepoint_scalar by blast
  from Cons obtain bs where bs: "encode_utf8 cs = Inr bs" by auto
  from b bs show ?case by (simp add: then_do_def)
qed

text \<open>
  C6. For every byte sequence \<open>b\<close>, \<open>decode b\<close> returns a text and does not raise: it is
  the UTF-8 decoding of \<open>b\<close> when that succeeds, and otherwise the Latin-1 decoding of
  \<open>b\<close>, which exists for every byte sequence.
\<close>

theorem decode_never_raises:
  "\<exists>t. decode b = Inr t \<and>
       t = (case decode_utf8 b of Inr u \<Rightarrow> u | Inl e \<Rightarrow> map unat b) \<and>
       decode_latin1 b = Inr (map unat b)"
proof (cases "decode_utf8 b")
  case (Inl e)
  then have "e = UnicodeDecodeError" by (rule decode_utf8_error)
  with Inl show ?thesis by (simp add: decode_def decode_latin1_def)
next
  case (Inr u)
  then show ?thesis by (simp add: decode_def decode_latin1_def)
qed

theorem decode_never_raises_witness:
  "decode [0xC3, 0xA9] = Inr [233] \<and> decode [0xE9] = Inr [233] \<and>
   decode [0x50, 0xC3] = Inr [80, 195]"
  using decode_utf8_examples decode_never_raises [of "[0xC3, 0xA9]"]
    decode_never_raises [of "[0xE9]"] decode_never_raises [of "[0x50, 0xC3]"]
  by simp

subsection \<open>Line endings\<close>

lemma endswith_iff: "endswith t e = (\<exists>p. t = p @ e)"
proof
  assume "endswith t e"
  then have "t = take (length t - length e) t @ e"
    by (metis append_take_drop_id endswith_def)
  then show "\<exists>p. t = p @ e" ..
next
  assume "\<exists>p. t = p @ e"
  then show "endswith t e" by (auto simp: endswith_def)
qed

lemma endswith_append: "endswith (t @ e) e"
  by (simp add: endswith_def)

lemma normalize_line_endswith: "endswith (normalize_line t e) e"
  by (simp add: normalize_line_def endswith_append)

text \<open>
  C7. For every text \<open>t\<close> and terminator \<open>e\<close>, \<open>normalize(t, e)\<close> ends with \<open>e\<close>, and
  normalizing it again changes nothing.
\<close>

theorem normalize_line_idempotent:
  "endswith (normalize_line t e) e \<and> (\<exists>p. normalize_line t e = p @ e) \<and>
   normalize_line (normalize_line t e) e = normalize_line t e"
proof -
  have 1: "endswith (normalize_line t e) e" by (rule normalize_line_endswith)
  then have 2: "\<exists>p. normalize_line t e = p @ e" by (simp add: endswith_iff)
  from 1 have 3: "normalize_line (normalize_line t e) e = normalize_line t e"
    by (simp add: normalize_line_def [of "normalize_line t e"])
  from 1 2 3 show ?thesis by blast
qed

theorem normalize_line_idempotent_witness:
  "normalize_line [80, 73, 78, 71] crlf = [80, 73, 78, 71, 13, 10] \<and>
   normalize_line [80, 73, 78, 71, 13, 10] crlf = [80, 73, 78, 71, 13, 10] \<and>
   normalize_line [80, 13] [13, 10] = [80, 13, 13, 10]"
  using normalize_line_idempotent [of "[80, 73, 78, 71]" crlf]
  by (simp add: normalize_line_def endswith_def crlf_def)

subsection \<open>Sending a line\<close>

lemma scalar_crlf: "list_all scalar crlf"
  by (simp add: crlf_def scalar_def)

lemma scalar_normalize_line: "list_all scalar t \<Longrightarrow> list_all scalar (normalize_line t crlf)"
  using scalar_crlf by (simp add: normalize_line_def)

lemma send_eq:
  "send self args =
     then_do (encode_utf8 (normalize_line (join [32] args) crlf))
       (\<lambda>payload. Inr (self\<lparr>transport := (transport self)\<lparr>written := written (transport self) @ [payload]\<rparr>\<rparr>))"
  by (simp add: send_def transport_write_def)

text \<open>
  C8, as the code has it. \<open>send(a, b, c)\<close> encodes before it writes, and the UTF-8 encoder
  raises \<open>UnicodeEncodeError\<close> on a surrogate code point: with a fragment
  made of the single code point U+D800 nothing is written.
\<close>

theorem send_surrogate_counterexample:
  "send live [[0xD800], [97], [98]] = Inl UnicodeEncodeError"
  by (simp add: send_eq normalize_line_def endswith_def crlf_def then_do_def
      encode_codepoint_def)

text \<open>
  C8, amended. For all text fragments \<open>a\<close>, \<open>b\<close>, \<open>c\<close> whose code points are Unicode
  scalar values (no surrogates), \<open>send(a, b, c)\<close> performs exactly one transport write,
  and the payload is the UTF-8 encoding of \<open>normalize(a + " " + b + " " + c)\<close>.
\<close>

theorem send_one_write:
  assumes "list_all scalar a" "list_all scalar b" "list_all scalar c"
  shows "\<exists>payload.
           encode_utf8 (normalize_line (a @ [32] @ b @ [32] @ c) crlf) = Inr payload \<and>
           send self [a, b, c] =
             Inr (self\<lparr>transport :=
                    (transport self)\<lparr>written := written (transport self) @ [payload]\<rparr>\<rparr>)"
proof -
  have "list_all scalar (a @ [32] @ b @ [32] @ c)"
    using assms by (simp add: scalar_def)
  then have "list_all scalar (normalize_line (a @ [32] @ b @ [32] @ c) crlf)"
    by (rule scalar_normalize_line)
  then obtain payload
    where p: "encode_utf8 (normalize_line (a @ [32] @ b @ [32] @ c) crlf) = Inr payload"
    using encode_utf8_scalar by blast
  then have "send self [a, b, c] =
      Inr (self\<lparr>transport := (transport self)\<lparr>written := written (transport self) @ [payload]\<rparr>\<rparr>)"
    by (simp add: send_eq then_do_def)
  with p show ?thesis by blast
qed

theorem send_one_write_witness:
  "list_all scalar [80] \<and> list_all scalar [233] \<and> list_all scalar [0x20AC] \<and>
   send live [[80], [233], [0x20AC]] =
     Inr (live\<lparr>transport :=
            \<lparr>written = [[80, 32, 0xC3, 0xA9, 32, 0xE2, 0x82, 0xAC, 13, 10]], closed = False\<rparr>\<rparr>)"
proof -
  have h: "list_all scalar [80]" "list_all scalar [233]" "list_all scalar [0x20AC]"
    by (simp_all add: scalar_def)
  have e: "encode_utf8 (normalize_line ([80] @ [32] @ [233] @ [32] @ [0x20AC]) crlf) =
      Inr [80, 32, 0xC3, 0xA9, 32, 0xE2, 0x82, 0xAC, 13, 10]"
    by (simp add: normalize_line_def endswith_def crlf_def then_do_def encode_codepoint_def)
  from send_one_write [OF h, of live] e h show ?thesis
    by (auto simp: live_def)
qed


section \<open>The Bouncer: \<open>add_network\<close>, \<open>remove_network\<close> and start-up\<close>

subsection \<open>\<open>add_network\<close>\<close>

lemma add_network_eq:
  "add_network w n h p nk u r pw um =
     Inr (w\<lparr>effects := effects w @
            (if datastore (bouncer w) then [DsAddNetwork (credentials n h p nk u r pw)] else []) @
            [CreateConnection (credentials n h p nk u r pw) h p]\<rparr>)"
  by (simp add: add_network_def emit_def Let_def)

lemma credentials_keys:
  "map fst (credentials n h p nk u r pw) =
     [''network'', ''nickname'', ''username'', ''realname'', ''hostname'', ''port'', ''password'']"
  by (simp add: credentials_def)

lemma add_network_usermode_unused:
  "add_network w n h p nk u r pw um = add_network w n h p nk u r pw 0"
  by (simp add: add_network_eq)

text \<open>
  C1. The specification asks that the record written to the store carries the usermode. At the
  call \<open>add_network("libera", "irc.libera.chat", 6697, "alice", "alice", "Alice", None,
  usermode=8)\<close> with a Datastore, the keyword arguments handed to
  \<open>Datastore.add_network\<close> are the seven entries of the credentials dictionary; the
  usermode 8 is in none of them.
\<close>

theorem add_network_usermode_dropped:
  "add_network demo ''libera'' ''irc.libera.chat'' (PyInt 6697) ''alice'' ''alice'' ''Alice''
     PyNone 8 =
   Inr (demo\<lparr>effects :=
     [DsAddNetwork
        [(''network'', PyStr ''libera''), (''nickname'', PyStr ''alice''),
         (''username'', PyStr ''alice''), (''realname'', PyStr ''Alice''),
         (''hostname'', PyStr ''irc.libera.chat''), (''port'', PyInt 6697),
         (''password'', PyNone)],
      CreateConnection
        [(''network'', PyStr ''libera''), (''nickname'', PyStr ''alice''),
         (''username'', PyStr ''alice''), (''realname'', PyStr ''Alice''),
         (''hostname'', PyStr ''irc.libera.chat''), (''port'', PyInt 6697),
         (''password'', PyNone)]
        ''irc.libera.chat'' (PyInt 6697)]\<rparr>)"
  by (simp add: add_network_eq credentials_def demo_def)

text \<open>
  C4. Whenever the Datastore is available, \<open>add_network\<close> makes exactly two calls, and
  the write of the credentials to the store comes before the dial.
\<close>

theorem add_network_write_before_dial:
  assumes "datastore (bouncer w)"
  shows "\<exists>w'. add_network w n h p nk u r pw um = Inr w' \<and>
           effects w' = effects w @
             [DsAddNetwork (credentials n h p nk u r pw),
              CreateConnection (credentials n h p nk u r pw) h p]"
  using assms by (simp add: add_network_eq)

theorem add_network_write_before_dial_witness:
  "datastore (bouncer demo) \<and>
   (\<exists>w'. add_network demo ''oftc'' ''irc.example.org'' (PyStr ''6667'') ''alice'' ''alice''
            ''alice'' (PyStr ''secret'') 0 = Inr w' \<and>
          effects w' = [DsAddNetwork demo_credentials,
                        CreateConnection demo_credentials ''irc.example.org'' (PyStr ''6667'')])"
proof -
  have h: "datastore (bouncer demo)" by (simp add: demo_def)
  have e: "effects demo = []" by (simp add: demo_def)
  have c: "credentials ''oftc'' ''irc.example.org'' (PyStr ''6667'') ''alice'' ''alice''
             ''alice'' (PyStr ''secret'') = demo_credentials"
    by (simp add: credentials_def demo_credentials_def)
  from add_network_write_before_dial [OF h, of "''oftc''" "''irc.example.org''" "PyStr ''6667''"
      "''alice''" "''alice''" "''alice''" "PyStr ''secret''" 0]
  show ?thesis using h by (simp only: e c append_Nil simp_thms)
qed

text \<open>
  C5. \<open>add_network\<close> does not look at the registry: whatever the registry \<open>reg\<close> is,
  also one that already holds the same network name, the call returns without raising,
  leaves the registry as it is, writes to the store when there is one and issues the dial.
\<close>

theorem add_network_ignores_registry:
  "add_network (w\<lparr>bouncer := (bouncer w)\<lparr>networks := reg\<rparr>\<rparr>) n h p nk u r pw um =
     Inr (w\<lparr>bouncer := (bouncer w)\<lparr>networks := reg\<rparr>,
            effects := effects w @
              (if datastore (bouncer w) then [DsAddNetwork (credentials n h p nk u r pw)] else []) @
              [CreateConnection (credentials n h p nk u r pw) h p]\<rparr>)"
  by (simp add: add_network_eq)

theorem add_network_ignores_registry_witness:
  "networks (bouncer demo) ''oftc'' = Some 1 \<and>
   add_network demo ''oftc'' ''irc.example.org'' (PyStr ''6667'') ''alice'' ''alice''
     ''alice'' (PyStr ''secret'') 0 =
   Inr (demo\<lparr>effects :=
     [DsAddNetwork demo_credentials,
      CreateConnection demo_credentials ''irc.example.org'' (PyStr ''6667'')]\<rparr>)"
proof -
  have c: "credentials ''oftc'' ''irc.example.org'' (PyStr ''6667'') ''alice'' ''alice''
             ''alice'' (PyStr ''secret'') = demo_credentials"
    by (simp add: credentials_def demo_credentials_def)
  from add_network_ignores_registry [where w = demo and reg = "networks (bouncer demo)"
      and n = "''oftc''" and h = "''irc.example.org''" and p = "PyStr ''6667''"
      and nk = "''alice''" and u = "''alice''" and r = "''alice''"
      and pw = "PyStr ''secret''" and um = 0]
  show ?thesis by (simp add: c) (simp add: demo_def)
qed

subsection \<open>\<open>remove_network\<close>\<close>

lemma remove_network_present:
  assumes "networks (bouncer w) name = Some r"
  shows "remove_network w name =
     Inr (w\<lparr>objects := (objects w)(r := (objects w r)\<lparr>connected := False,
                  transport := (transport (objects w r))\<lparr>closed := True\<rparr>\<rparr>),
            effects := effects w @ (if datastore (bouncer w) then [DsRemoveNetwork name] else [])\<rparr>)"
  using assms
  by (simp add: remove_network_def disconnect_def getitem_def then_do_def emit_def
      transport_close_def dom_def)

lemma remove_network_absent:
  assumes "networks (bouncer w) name = None"
  shows "remove_network w name =
     Inr (w\<lparr>effects := effects w @ (if datastore (bouncer w) then [DsRemoveNetwork name] else [])\<rparr>)"
  using assms
  by (simp add: remove_network_def then_do_def emit_def dom_def)

lemma remove_network_returns:
  "\<exists>w'. remove_network w name = Inr w' \<and> bouncer w' = bouncer w"
proof (cases "networks (bouncer w) name")
  case None
  then show ?thesis by (simp add: remove_network_absent)
next
  case (Some r)
  then show ?thesis by (simp add: remove_network_present)
qed

text \<open>
  C3. For a name the registry maps to a session \<open>r\<close>, \<open>remove_network\<close> sets the
  connected flag of \<open>r\<close> to false and closes its transport; the registry is the same map
  afterwards, so the name is still a key and every other entry is unchanged, the client
  collection is unchanged, and no other session object is touched.
\<close>

theorem remove_network_keeps_entry:
  assumes "networks (bouncer w) name = Some r"
  shows "\<exists>w'. remove_network w name = Inr w' \<and>
           networks (bouncer w') = networks (bouncer w) \<and>
           name \<in> dom (networks (bouncer w')) \<and>
           clients (bouncer w') = clients (bouncer w) \<and>
           connected (objects w' r) = False \<and>
           closed (transport (objects w' r)) = True \<and>
           (\<forall>r'. r' \<noteq> r \<longrightarrow> objects w' r' = objects w r')"
  using assms by (simp add: remove_network_present dom_def)

theorem remove_network_keeps_entry_witness:
  "networks (bouncer demo) ''freenode'' = Some 0 \<and>
   (\<exists>w'. remove_network demo ''freenode'' = Inr w' \<and>
          networks (bouncer w') = networks (bouncer demo) \<and>
          ''freenode'' \<in> dom (networks (bouncer w')) \<and>
          clients (bouncer w') = clients (bouncer demo) \<and>
          connected (objects w' 0) = False \<and>
          closed (transport (objects w' 0)) = True \<and>
          (\<forall>r'. r' \<noteq> 0 \<longrightarrow> objects w' r' = objects demo r'))"
proof -
  have h: "networks (bouncer demo) ''freenode'' = Some 0" by (simp add: demo_def)
  from remove_network_keeps_entry [OF h] h show ?thesis by blast
qed

text \<open>
  C9. For a name that is not in the registry, \<open>remove_network\<close> does not raise, leaves
  the registry, the clients and every session as they are, and still asks the store to
  remove the name when there is a store.
\<close>

theorem remove_network_absent_name:
  assumes "networks (bouncer w) name = None"
  shows "\<exists>w'. remove_network w name = Inr w' \<and>
           bouncer w' = bouncer w \<and> objects w' = objects w \<and>
           effects w' = effects w @ (if datastore (bouncer w) then [DsRemoveNetwork name] else [])"
  using assms by (simp add: remove_network_absent)

theorem remove_network_absent_name_witness:
  "networks (bouncer demo) ''x'' = None \<and> datastore (bouncer demo) \<and>
   (\<exists>w'. remove_network demo ''x'' = Inr w' \<and>
          bouncer w' = bouncer demo \<and> objects w' = objects demo \<and>
          effects w' = [DsRemoveNetwork ''x''])"
proof -
  have h: "networks (bouncer demo) ''x'' = None" by (simp add: demo_def)
  have d: "datastore (bouncer demo)" "effects demo = []" by (simp_all add: demo_def)
  from remove_network_absent_name [OF h] h d show ?thesis by simp
qed

subsection \<open>Start-up\<close>

lemma call_add_network_eq:
  "datastore (bouncer w) \<Longrightarrow>
   call_add_network w kw = Inr (w\<lparr>effects := effects w @ reload_events kw\<rparr>)"
  by (simp add: call_add_network_def add_network_eq reload_events_def kwargs_credentials_def)

lemma add_networks_eq:
  "datastore (bouncer w) \<Longrightarrow>
   add_networks w kws = Inr (w\<lparr>effects := effects w @ concat (map reload_events kws)\<rparr>)"
proof (induction kws arbitrary: w)
  case Nil
  then show ?case by simp
next
  case (Cons kw kws)
  let ?w1 = "w\<lparr>effects := effects w @ reload_events kw\<rparr>"
  from Cons.prems have d: "datastore (bouncer ?w1)" by simp
  from Cons.prems have "add_networks w (kw # kws) = add_networks ?w1 kws"
    by (simp add: call_add_network_eq then_do_def)
  also from Cons.IH [OF d]
  have "\<dots> = Inr (?w1\<lparr>effects := effects ?w1 @ concat (map reload_events kws)\<rparr>)" .
  finally show ?case by simp
qed

lemma count_reload_events:
  "length (filter is_network_write (concat (map reload_events kws))) = length kws \<and>
   length (filter is_dial (concat (map reload_events kws))) = length kws"
  by (induction kws) (simp_all add: reload_events_def)

lemma kwargs_credentials_network:
  "map_of (kwargs_credentials kw) ''network'' = Some (PyStr (kw_network kw))"
  by (simp add: kwargs_credentials_def credentials_def)

text \<open>
  C10. When the Datastore answers the ping, \<open>__init__\<close> returns, and after the optional
  \<open>set_password\<close> its calls are, for each stored record in turn, a write of that record's
  credentials to the store (under the record's own network name) followed by the dial:
  with N stored records, N credential writes and N dials.
\<close>

theorem Bouncer_init_rewrites_history:
  "\<exists>w'. Bouncer_init None pw history = Inr w' \<and>
     effects w' = (if pw = None \<or> pw = Some [] then [DsSetPassword] else []) @
                  concat (map (\<lambda>(name, kw). reload_events kw) history) \<and>
     length (filter is_network_write (effects w')) = length history \<and>
     length (filter is_dial (effects w')) = length history \<and>
     (\<forall>kw. map_of (kwargs_credentials kw) ''network'' = Some (PyStr (kw_network kw)))"
proof -
  have m: "map (\<lambda>(name, kw). reload_events kw) history = map reload_events (map snd history)"
    by (simp add: case_prod_beta comp_def)
  show ?thesis
    using count_reload_events [of "map snd history"]
    by (simp add: Bouncer_init_def Let_def add_networks_eq emit_def m kwargs_credentials_network)
qed

theorem Bouncer_init_rewrites_history_witness:
  "\<exists>w'. Bouncer_init None (Some ''secret'')
           [(''freenode'', freenode_kwargs), (''oftc'', oftc_kwargs)] = Inr w' \<and>
     effects w' =
       [DsAddNetwork (kwargs_credentials freenode_kwargs),
        CreateConnection (kwargs_credentials freenode_kwargs) ''irc.example.org'' (PyInt 6667),
        DsAddNetwork (kwargs_credentials oftc_kwargs),
        CreateConnection (kwargs_credentials oftc_kwargs) ''irc.oftc.net'' (PyInt 6697)] \<and>
     map_of (kwargs_credentials oftc_kwargs) ''network'' = Some (PyStr ''oftc'') \<and>
     map_of (kwargs_credentials oftc_kwargs) ''usermode'' = None"
proof -
  have k: "kw_hostname freenode_kwargs = ''irc.example.org''"
    "kw_port freenode_kwargs = PyInt 6667"
    "kw_hostname oftc_kwargs = ''irc.oftc.net''"
    "kw_port oftc_kwargs = PyInt 6697"
    "kw_network oftc_kwargs = ''oftc''"
    by (simp_all add: freenode_kwargs_def oftc_kwargs_def)
  have u: "map_of (kwargs_credentials oftc_kwargs) ''usermode'' = None"
    by (simp add: kwargs_credentials_def credentials_def)
  from Bouncer_init_rewrites_history
    [of "Some ''secret''" "[(''freenode'', freenode_kwargs), (''oftc'', oftc_kwargs)]"]
  show ?thesis by (auto simp: reload_events_def k u)
qed


section \<open>The request handlers\<close>

lemma read_form_demo_request:
  "read_form demo_request =
     Inr \<lparr>form_name = ''oftc'', form_hostname = ''irc.example.org'', form_port = ''6667'',
          form_nickname = ''alice'', form_ident = ''alice'', form_password = ''secret''\<rparr>"
  by (simp add: read_form_def get_argument_def demo_request_def then_do_def unpack2_def)

lemma add_from_form_eq:
  "add_from_form w f =
     Inr (w\<lparr>effects := effects w @
            (if datastore (bouncer w)
             then [DsAddNetwork (credentials (form_name f) (form_hostname f) (PyStr (form_port f))
                     (form_nickname f) (form_ident f) (form_ident f) (PyStr (form_password f)))]
             else []) @
            [CreateConnection (credentials (form_name f) (form_hostname f) (PyStr (form_port f))
               (form_nickname f) (form_ident f) (form_ident f) (PyStr (form_password f)))
               (form_hostname f) (PyStr (form_port f))]\<rparr>)"
  by (simp add: add_from_form_def add_network_eq)

text \<open>
  The add page: a submitted name that is already a key of the registry is not added; the
  response is the redirect alone.
\<close>

lemma AddHandler_post_registered:
  assumes "read_form req = Inr f" and "form_name f \<in> dom (networks (bouncer w))"
  shows "AddHandler_post w req = (None, emit w (Redirect ''/''))"
  using assms by (simp add: AddHandler_post_def finish_def)

lemma AddHandler_post_new:
  assumes "read_form req = Inr f" and "form_name f \<notin> dom (networks (bouncer w))"
  shows "AddHandler_post w req = finish (add_from_form w f) w"
  using assms by (simp add: AddHandler_post_def)

text \<open>The edit page: removal, then the add, with no test of the registry in between.\<close>

lemma EditHandler_post_eq:
  assumes "read_form req = Inr f"
  shows "\<exists>w1. remove_network w name = Inr w1 \<and> bouncer w1 = bouncer w \<and>
           EditHandler_post w name req = finish (add_from_form w1 f) w1"
proof -
  obtain w1 where "remove_network w name = Inr w1" "bouncer w1 = bouncer w"
    using remove_network_returns by blast
  with assms show ?thesis by (simp add: EditHandler_post_def)
qed

text \<open>
  C2. The specification asks that the edit page, like the add page, never calls \<open>add_network\<close>
  with a name the registry holds. With \<open>freenode\<close> and \<open>oftc\<close> registered, the edit of
  \<open>freenode\<close> with the submitted name \<open>oftc\<close> closes \<open>freenode\<close> and then calls
  \<open>add_network\<close> for \<open>oftc\<close>: the store is written and the dial is issued, although
  \<open>oftc\<close> is a key of the registry before and after. The add page, given the same form,
  only redirects.
\<close>

theorem EditHandler_post_adds_registered_name:
  "''oftc'' \<in> dom (networks (bouncer demo)) \<and>
   fst (EditHandler_post demo ''freenode'' demo_request) = None \<and>
   effects (snd (EditHandler_post demo ''freenode'' demo_request)) =
     [DsRemoveNetwork ''freenode'',
      DsAddNetwork demo_credentials,
      CreateConnection demo_credentials ''irc.example.org'' (PyStr ''6667''),
      Redirect ''/''] \<and>
   networks (bouncer (snd (EditHandler_post demo ''freenode'' demo_request))) =
     networks (bouncer demo) \<and>
   AddHandler_post demo demo_request = (None, emit demo (Redirect ''/''))"
proof -
  have r: "networks (bouncer demo) ''freenode'' = Some 0" by (simp add: demo_def)
  have d: "''oftc'' \<in> dom (networks (bouncer demo))" by (simp add: demo_def)
  have e: "datastore (bouncer demo)" "effects demo = []" by (simp_all add: demo_def)
  have c: "credentials ''oftc'' ''irc.example.org'' (PyStr ''6667'') ''alice'' ''alice''
             ''alice'' (PyStr ''secret'') = demo_credentials"
    by (simp add: credentials_def demo_credentials_def)
  have a: "AddHandler_post demo demo_request = (None, emit demo (Redirect ''/''))"
    using d by (simp add: AddHandler_post_registered [OF read_form_demo_request])
  have "EditHandler_post demo ''freenode'' demo_request =
     (None, demo\<lparr>objects := (objects demo)(0 := (objects demo 0)\<lparr>connected := False,
                     transport := (transport (objects demo 0))\<lparr>closed := True\<rparr>\<rparr>),
                  effects := [DsRemoveNetwork ''freenode'', DsAddNetwork demo_credentials,
                     CreateConnection demo_credentials ''irc.example.org'' (PyStr ''6667''),
                     Redirect ''/'']\<rparr>)"
    by (simp add: EditHandler_post_def remove_network_present [OF r] read_form_demo_request
        add_from_form_eq finish_def emit_def e c)
  with d a show ?thesis by simp
qed


end
